theory Spec2Isabelle
  imports Main "HOL-Library.Sublist"
begin

section \<open>JavaScript values used by the form modal\<close>

text \<open>
  The answers stored in \<open>formData.responses\<close> have type \<open>any\<close>. The validators only
  compare them with \<open>undefined\<close>, \<open>null\<close>, \<open>""\<close> and \<open>true\<close> by strict equality, so
  a tagged value is enough. Numbers stored by the form are ratings and ids; they are
  modelled as integers.
\<close>

datatype jsvalue = JUndefined | JNull | JBool bool | JNum int | JStr string

text \<open>
  An identifier field of type \<open>number | null\<close> (or an optional \<open>number\<close>) is an
  \<open>int option\<close>. The source tests such fields by truthiness (\<open>!formData.workTaskId\<close>):
  \<open>null\<close>, \<open>undefined\<close> and the number \<open>0\<close> are falsy. (\<open>NaN\<close> is falsy too;
  the ids of the data are integers, so it has no counterpart here.)
\<close>

definition truthy :: "int option \<Rightarrow> bool" where
  "truthy v = (case v of None \<Rightarrow> False | Some n \<Rightarrow> n \<noteq> 0)"

text \<open>The expression \<open>x || null\<close> on such a field.\<close>

definition orNull :: "int option \<Rightarrow> int option" where
  "orNull v = (if truthy v then v else None)"

text \<open>Optional chaining \<open>x?.flag\<close> in a boolean position: \<open>undefined\<close> is falsy.\<close>

fun optFlag :: "('a \<Rightarrow> bool) \<Rightarrow> 'a option \<Rightarrow> bool" where
  "optFlag f None = False"
| "optFlag f (Some x) = f x"

text \<open>
  Array indexing \<open>xs[i]\<close>: \<open>undefined\<close> outside the array instead of an exception.
\<close>

definition nth_opt :: "'a list \<Rightarrow> int \<Rightarrow> 'a option" where
  "nth_opt xs i = (if 0 \<le> i \<and> nat i < length xs then Some (xs ! nat i) else None)"

subsection \<open>Strings\<close>

text \<open>
  Strings are lists of characters with code units below 256. The Swedish labels of
  the source need three letters outside ASCII.
\<close>

definition a_ring :: char where "a_ring = CHR 0xE5"
definition a_uml :: char where "a_uml = CHR 0xE4"
definition o_uml :: char where "o_uml = CHR 0xF6"

text \<open>
  \<open>String.prototype.trim\<close> strips white space and line terminators from both ends;
  in the range of \<open>char\<close> these are TAB, LF, VT, FF, CR, SPACE and NBSP.
\<close>

definition isWhiteSpace :: "char \<Rightarrow> bool" where
  "isWhiteSpace c =
     (c = CHR 0x09 \<or> c = CHR 0x0A \<or> c = CHR 0x0B \<or> c = CHR 0x0C \<or> c = CHR 0x0D \<or>
      c = CHR 0x20 \<or> c = CHR 0xA0)"

definition trim :: "string \<Rightarrow> string" where
  "trim s = rev (dropWhile isWhiteSpace (rev (dropWhile isWhiteSpace s)))"

fun join :: "string \<Rightarrow> string list \<Rightarrow> string" where
  "join sep [] = []"
| "join sep [x] = x"
| "join sep (x # y # ys) = x @ sep @ join sep (y # ys)"

section \<open>Data model\<close>

text \<open>
  The entity types come from the shared schema; the records keep the fields that the
  form logic reads.
\<close>

record Checklist =
  cl_id :: int
  cl_name :: string
  includeWorkTasks :: bool
  includeWorkStations :: bool
  includeShifts :: bool

record WorkTask =
  wt_id :: int
  wt_name :: string
  hasStations :: bool

record ChecklistWorkTask =
  cwt_checklistId :: int
  cwt_workTaskId :: int

record Category =
  cat_id :: int
  cat_name :: string

record Question =
  q_id :: int
  q_text :: string
  q_type :: string
  isRequired :: bool
  categoryId :: int

record QuestionWorkTask =
  questionId :: int
  qwt_workTaskId :: int

record FormData =
  checklistId :: "int option"
  operatorName :: string
  workTaskId :: "int option"
  workStationId :: "int option"
  shiftId :: "int option"
  responses :: "int \<rightharpoonup> jsvalue"

text \<open>The props of the component and the data delivered by its queries.\<close>

record Data =
  preselectedChecklistId :: "int option"
  checklists :: "Checklist list"
  checklistWorkTasks :: "ChecklistWorkTask list"
  allWorkTasks :: "WorkTask list"
  categories :: "Category list"
  questions :: "Question list"
  allQuestionWorkTasks :: "QuestionWorkTask list"

text \<open>
  The payload built by \<open>handleSubmit\<close>. A key that is only assigned under a condition
  is an option: \<open>None\<close> when the key is absent, \<open>Some v\<close> when it is present with the
  (possibly \<open>null\<close>) value \<open>v\<close>.
\<close>

record SubmitData =
  sd_checklistId :: "int option"
  sd_operatorName :: string
  sd_responses :: "int \<rightharpoonup> jsvalue"
  isCompleted :: bool
  sd_workTaskId :: "int option option"
  sd_workStationId :: "int option option"
  sd_shiftId :: "int option option"

text \<open>
  What the component does to the outside: toasts (title, description, variant),
  query invalidations, the request of the mutation, and the \<open>onClose\<close> callback.
\<close>

datatype Effect =
    Toast string string "string option"
  | InvalidateQueries string
  | ApiRequest string string SubmitData
  | OnClose

record State =
  currentStep :: int
  formData :: FormData
  effects :: "Effect list"

datatype Outcome = Resolved | Rejected

section \<open>Derived data\<close>

definition initialFormData :: "Data \<Rightarrow> FormData" where
  "initialFormData d =
     \<lparr> checklistId = orNull (preselectedChecklistId d),
       operatorName = [],
       workTaskId = None,
       workStationId = None,
       shiftId = None,
       responses = Map.empty \<rparr>"

definition initialState :: "Data \<Rightarrow> State" where
  "initialState d = \<lparr> currentStep = 2, formData = initialFormData d, effects = [] \<rparr>"

definition currentChecklist :: "Data \<Rightarrow> FormData \<Rightarrow> Checklist option" where
  "currentChecklist d fd = find (\<lambda>c. Some (cl_id c) = checklistId fd) (checklists d)"

text \<open>
  The work tasks linked to the checklist. Both query results are arrays (an empty one
  until the data arrives), so the \<open>Array.isArray\<close> guard of the source never fires.
\<close>

definition workTasks :: "Data \<Rightarrow> WorkTask list" where
  "workTasks d =
     filter (\<lambda>wt. list_ex (\<lambda>cwt. cwt_workTaskId cwt = wt_id wt) (checklistWorkTasks d))
       (allWorkTasks d)"

definition filteredQuestions :: "Data \<Rightarrow> FormData \<Rightarrow> Question list" where
  "filteredQuestions d fd =
     (if \<not> truthy (workTaskId fd) \<or> \<not> optFlag includeWorkTasks (currentChecklist d fd)
      then questions d
      else filter
        (\<lambda>question.
           let questionWorkTasks =
                 filter (\<lambda>qwt. questionId qwt = q_id question) (allQuestionWorkTasks d)
           in if length questionWorkTasks = 0 then True
              else list_ex (\<lambda>qwt. Some (qwt_workTaskId qwt) = workTaskId fd) questionWorkTasks)
        (questions d))"

definition categoriesWithQuestions :: "Data \<Rightarrow> FormData \<Rightarrow> Category list" where
  "categoriesWithQuestions d fd =
     filter (\<lambda>category. list_ex (\<lambda>question. categoryId question = cat_id category)
                          (filteredQuestions d fd))
       (categories d)"

definition totalSteps :: "Data \<Rightarrow> FormData \<Rightarrow> int" where
  "totalSteps d fd = 1 + int (length (categoriesWithQuestions d fd))"

section \<open>Validation\<close>

definition lookupResponse :: "(int \<rightharpoonup> jsvalue) \<Rightarrow> int \<Rightarrow> jsvalue" where
  "lookupResponse rs k = (case rs k of None \<Rightarrow> JUndefined | Some v \<Rightarrow> v)"

definition label_operatorName :: string where
  "label_operatorName = ''Operat'' @ [o_uml] @ ''rsnamn''"

definition label_workTask :: string where
  "label_workTask = ''Arbetsuppgift''"

definition label_workStation :: string where
  "label_workStation = ''Arbetsstation''"

definition label_shift :: string where
  "label_shift = ''Skift''"

definition questionLabel :: "Question \<Rightarrow> string" where
  "questionLabel question =
     ''Fr'' @ [a_ring] @ ''ga: '' @ [CHR 0x22] @ q_text question @ [CHR 0x22]"

text \<open>The body of the loop over the questions of a category in \<open>validateCurrentStep\<close>.\<close>

definition checkQuestion :: "(int \<rightharpoonup> jsvalue) \<Rightarrow> Question \<Rightarrow> string list \<Rightarrow> string list" where
  "checkQuestion rs question missingFields =
     (if isRequired question then
        (let response = lookupResponse rs (q_id question) in
         if q_type question = ''check'' then
           (if response \<noteq> JBool True
            then missingFields @ [questionLabel question] else missingFields)
         else
           (if response = JUndefined \<or> response = JNull \<or> response = JStr []
            then missingFields @ [questionLabel question] else missingFields))
      else missingFields)"

text \<open>The list \<open>missingFields\<close> when \<open>validateCurrentStep\<close> reaches its final test.\<close>

definition missingFields :: "Data \<Rightarrow> State \<Rightarrow> string list" where
  "missingFields d s =
     (let fd = formData s; cl = currentChecklist d fd in
      if currentStep s = 2 then
        (let m1 = (if trim (operatorName fd) = [] then [label_operatorName] else []);
             m2 = (if optFlag includeWorkTasks cl \<and> \<not> truthy (workTaskId fd)
                   then m1 @ [label_workTask] else m1);
             m3 = (if optFlag includeWorkStations cl \<and> truthy (workTaskId fd) then
                     (let selectedWorkTask =
                            find (\<lambda>task. Some (wt_id task) = workTaskId fd) (workTasks d)
                      in if optFlag hasStations selectedWorkTask \<and> \<not> truthy (workStationId fd)
                         then m2 @ [label_workStation] else m2)
                   else m2)
         in if optFlag includeShifts cl \<and> \<not> truthy (shiftId fd)
            then m3 @ [label_shift] else m3)
      else if currentStep s \<ge> 3 then
        (case nth_opt (categoriesWithQuestions d fd) (currentStep s - 3) of
           None \<Rightarrow> []
         | Some category \<Rightarrow>
             fold (checkQuestion (responses fd))
               (filter (\<lambda>q. categoryId q = cat_id category) (filteredQuestions d fd)) [])
      else [])"

definition validateCurrentStep :: "Data \<Rightarrow> State \<Rightarrow> bool \<times> State" where
  "validateCurrentStep d s =
     (let missing = missingFields d s in
      if length missing > 0 then
        (False,
         s\<lparr>effects := effects s @
           [Toast (''Obligatoriska f'' @ [a_uml] @ ''lt saknas'')
              (''F'' @ [o_uml] @ ''ljande f'' @ [a_uml] @ ''lt m'' @ [a_ring] @
               ''ste fyllas i: '' @ join '', '' missing)
              (Some ''destructive'')]\<rparr>)
      else (True, s))"

text \<open>The loop of \<open>canProceed\<close>, which returns at the first unanswered question.\<close>

fun allRequiredAnswered :: "(int \<rightharpoonup> jsvalue) \<Rightarrow> Question list \<Rightarrow> bool" where
  "allRequiredAnswered rs [] = True"
| "allRequiredAnswered rs (question # rest) =
     (if isRequired question then
        (let response = lookupResponse rs (q_id question) in
         if q_type question = ''check'' then
           (if response \<noteq> JBool True then False else allRequiredAnswered rs rest)
         else
           (if response = JUndefined \<or> response = JNull \<or> response = JStr []
            then False else allRequiredAnswered rs rest))
      else allRequiredAnswered rs rest)"

definition canProceed :: "Data \<Rightarrow> State \<Rightarrow> bool" where
  "canProceed d s =
     (let fd = formData s; cl = currentChecklist d fd in
      if currentStep s = 2 then
        (if operatorName fd = [] then False
         else if optFlag includeWorkTasks cl \<and> \<not> truthy (workTaskId fd) then False
         else if optFlag includeWorkStations cl \<and> truthy (workTaskId fd) \<and>
                 optFlag hasStations
                   (find (\<lambda>task. Some (wt_id task) = workTaskId fd) (workTasks d)) \<and>
                 \<not> truthy (workStationId fd) then False
         else if optFlag includeShifts cl \<and> \<not> truthy (shiftId fd) then False
         else True)
      else if currentStep s \<ge> 3 then
        (case nth_opt (categoriesWithQuestions d fd) (currentStep s - 3) of
           None \<Rightarrow> True
         | Some category \<Rightarrow>
             allRequiredAnswered (responses fd)
               (filter (\<lambda>q. categoryId q = cat_id category) (questions d)))
      else True)"

section \<open>Submission and navigation\<close>

definition submitData :: "Data \<Rightarrow> FormData \<Rightarrow> SubmitData" where
  "submitData d fd =
     (let cl = currentChecklist d fd;
          p0 = \<lparr> sd_checklistId = checklistId fd,
                 sd_operatorName = operatorName fd,
                 sd_responses = responses fd,
                 isCompleted = True,
                 sd_workTaskId = None,
                 sd_workStationId = None,
                 sd_shiftId = None \<rparr>;
          p1 = (if optFlag includeWorkTasks cl
                then p0\<lparr>sd_workTaskId := Some (workTaskId fd)\<rparr> else p0);
          p2 = (if optFlag includeWorkStations cl
                then p1\<lparr>sd_workStationId := Some (workStationId fd)\<rparr> else p1)
      in if optFlag includeShifts cl
         then p2\<lparr>sd_shiftId := Some (shiftId fd)\<rparr> else p2)"

definition handleSubmit :: "Data \<Rightarrow> State \<Rightarrow> State" where
  "handleSubmit d s =
     s\<lparr>effects := effects s @
        [ApiRequest ''POST'' ''/api/responses'' (submitData d (formData s))]\<rparr>"

definition resetForm :: "Data \<Rightarrow> State \<Rightarrow> State" where
  "resetForm d s = s\<lparr>currentStep := 2, formData := initialFormData d\<rparr>"

definition onSuccess :: "Data \<Rightarrow> State \<Rightarrow> State" where
  "onSuccess d s =
     (let s1 = s\<lparr>effects := effects s @
                  [Toast ''Kontroll sparad!''
                     (''Ditt formul'' @ [a_uml] @ ''r har sparats framg'' @ [a_ring] @
                      ''ngsrikt.'')
                     None,
                   InvalidateQueries ''/api/responses'',
                   InvalidateQueries ''/api/dashboard/stats'']\<rparr>;
          s2 = resetForm d s1
      in s2\<lparr>effects := effects s2 @ [OnClose]\<rparr>)"

definition onError :: "State \<Rightarrow> State" where
  "onError s =
     s\<lparr>effects := effects s @
        [Toast ''Fel''
           (''Kunde inte spara formul'' @ [a_uml] @ ''ret. F'' @ [o_uml] @ ''rs'' @ [o_uml] @
            ''k igen.'')
           (Some ''destructive'')]\<rparr>"

text \<open>
  The request of \<open>submitMutation\<close> settles later, with an outcome decided by the
  network; then one of the two callbacks runs on the state of that moment.
\<close>

definition submitMutation :: "Data \<Rightarrow> Outcome \<Rightarrow> State \<Rightarrow> State" where
  "submitMutation d outcome s =
     (case outcome of Resolved \<Rightarrow> onSuccess d s | Rejected \<Rightarrow> onError s)"

definition handleNext :: "Data \<Rightarrow> State \<Rightarrow> State" where
  "handleNext d s =
     (case validateCurrentStep d s of
        (ok, s') \<Rightarrow>
          if \<not> ok then s'
          else if currentStep s' < totalSteps d (formData s') + 1
               then s'\<lparr>currentStep := currentStep s' + 1\<rparr>
               else handleSubmit d s')"

definition handlePrevious :: "State \<Rightarrow> State" where
  "handlePrevious s = (if currentStep s > 2 then s\<lparr>currentStep := currentStep s - 1\<rparr> else s)"

section \<open>A sample checklist\<close>

text \<open>
  A checklist with work tasks and work stations but no shifts, two work tasks, three
  categories and four required questions; the questions 12 and 13 are linked to work
  task 2 only. The sample is the concrete input of the instances below.
\<close>

definition ex_checklist :: Checklist where
  "ex_checklist = \<lparr> cl_id = 1, cl_name = ''Daily'', includeWorkTasks = True,
       includeWorkStations = True, includeShifts = False \<rparr>"

definition ex_questions :: "Question list" where
  "ex_questions =
     [\<lparr> q_id = 10, q_text = ''Helmet'', q_type = ''check'', isRequired = True, categoryId = 1 \<rparr>,
      \<lparr> q_id = 11, q_text = ''Count'', q_type = ''nummer'', isRequired = True, categoryId = 1 \<rparr>,
      \<lparr> q_id = 12, q_text = ''Paint'', q_type = ''text'', isRequired = True, categoryId = 2 \<rparr>,
      \<lparr> q_id = 13, q_text = ''Mask'', q_type = ''ja_nej'', isRequired = True, categoryId = 1 \<rparr>]"

definition ex_data :: Data where
  "ex_data =
     \<lparr> preselectedChecklistId = Some 1,
       checklists = [ex_checklist],
       checklistWorkTasks =
         [\<lparr> cwt_checklistId = 1, cwt_workTaskId = 1 \<rparr>, \<lparr> cwt_checklistId = 1, cwt_workTaskId = 2 \<rparr>],
       allWorkTasks =
         [\<lparr> wt_id = 1, wt_name = ''Weld'', hasStations = True \<rparr>,
          \<lparr> wt_id = 2, wt_name = ''Paint'', hasStations = False \<rparr>],
       categories =
         [\<lparr> cat_id = 1, cat_name = ''Safety'' \<rparr>, \<lparr> cat_id = 2, cat_name = ''Quality'' \<rparr>,
          \<lparr> cat_id = 3, cat_name = ''Spare'' \<rparr>],
       questions = ex_questions,
       allQuestionWorkTasks =
         [\<lparr> questionId = 12, qwt_workTaskId = 2 \<rparr>, \<lparr> questionId = 13, qwt_workTaskId = 2 \<rparr>] \<rparr>"

definition ex_data0 :: Data where
  "ex_data0 = ex_data\<lparr>categories := []\<rparr>"

definition ex_form :: FormData where
  "ex_form =
     \<lparr> checklistId = Some 1, operatorName = ''Ann'', workTaskId = Some 1,
       workStationId = Some 5, shiftId = None,
       responses = [10 \<mapsto> JBool True, 11 \<mapsto> JNum 0] \<rparr>"

definition ex_state :: "int \<Rightarrow> State" where
  "ex_state n = \<lparr> currentStep = n, formData = ex_form, effects = [] \<rparr>"

definition ex_blank :: State where
  "ex_blank = \<lparr> currentStep = 2,
       formData = ex_form\<lparr>operatorName := ''  '', workStationId := None\<rparr>, effects = [] \<rparr>"

definition ex_spaces :: State where
  "ex_spaces = \<lparr> currentStep = 2, formData = ex_form\<lparr>operatorName := ''  ''\<rparr>, effects = [] \<rparr>"

definition ex_step3 :: "(int \<rightharpoonup> jsvalue) \<Rightarrow> State" where
  "ex_step3 rs = \<lparr> currentStep = 3, formData = ex_form\<lparr>responses := rs\<rparr>, effects = [] \<rparr>"

definition ex_q10 :: Question where
  "ex_q10 = \<lparr> q_id = 10, q_text = ''Helmet'', q_type = ''check'', isRequired = True, categoryId = 1 \<rparr>"

definition ex_q11 :: Question where
  "ex_q11 = \<lparr> q_id = 11, q_text = ''Count'', q_type = ''nummer'', isRequired = True, categoryId = 1 \<rparr>"

section \<open>Facts about the sample and the helpers\<close>

lemma nth_opt_None: "int (length xs) \<le> i \<Longrightarrow> nth_opt xs i = None"
  by (simp add: nth_opt_def)

lemma ex_currentChecklist: "currentChecklist ex_data ex_form = Some ex_checklist"
  by (simp add: currentChecklist_def ex_data_def ex_form_def ex_checklist_def)

lemma ex_filteredQuestions: "filteredQuestions ex_data ex_form = take 2 ex_questions"
  by (simp add: filteredQuestions_def ex_currentChecklist)
     (simp add: ex_data_def ex_form_def ex_checklist_def ex_questions_def truthy_def)

lemma ex_categoriesWithQuestions:
  "categoriesWithQuestions ex_data ex_form = [\<lparr> cat_id = 1, cat_name = ''Safety'' \<rparr>]"
  by (simp add: categoriesWithQuestions_def ex_filteredQuestions)
     (simp add: ex_data_def ex_questions_def)

lemma validateCurrentStep_ok: "fst (validateCurrentStep d s) = (missingFields d s = [])"
  by (simp add: validateCurrentStep_def Let_def)

lemma ex_workTasks: "workTasks ex_data = allWorkTasks ex_data"
  by (simp add: workTasks_def ex_data_def)

lemma checkQuestion_append: "checkQuestion rs q acc = acc @ checkQuestion rs q []"
  by (simp add: checkQuestion_def Let_def)

lemma fold_checkQuestion:
  "fold (checkQuestion rs) qs acc = acc @ concat (map (\<lambda>q. checkQuestion rs q []) qs)"
proof (induction qs arbitrary: acc)
  case Nil
  show ?case by simp
next
  case (Cons q qs)
  have "fold (checkQuestion rs) (q # qs) acc = fold (checkQuestion rs) qs (checkQuestion rs q acc)"
    by simp
  also have "\<dots> = checkQuestion rs q acc @ concat (map (\<lambda>q. checkQuestion rs q []) qs)"
    by (rule Cons.IH)
  also have "\<dots> = acc @ checkQuestion rs q [] @ concat (map (\<lambda>q. checkQuestion rs q []) qs)"
    using checkQuestion_append [of rs q acc] by simp
  finally show ?case by simp
qed

lemma concat_map_removeAll:
  "f q = [] \<Longrightarrow> concat (map f (removeAll q qs)) = concat (map f qs)"
  by (induction qs) auto

lemma fold_checkQuestion_removeAll:
  "checkQuestion rs q [] = [] \<Longrightarrow>
   fold (checkQuestion rs) (removeAll q qs) [] = fold (checkQuestion rs) qs []"
  by (simp add: fold_checkQuestion concat_map_removeAll)

lemma fold_checkQuestion_mem:
  "q \<in> set qs \<Longrightarrow> set (checkQuestion rs q []) \<subseteq> set (fold (checkQuestion rs) qs [])"
  by (auto simp: fold_checkQuestion)

lemma question_step_missingFields:
  "3 \<le> currentStep s \<Longrightarrow>
   nth_opt (categoriesWithQuestions d (formData s)) (currentStep s - 3) = Some c \<Longrightarrow>
   missingFields d s =
     fold (checkQuestion (responses (formData s)))
       (filter (\<lambda>q. categoryId q = cat_id c) (filteredQuestions d (formData s))) []"
  by (simp add: missingFields_def Let_def)

lemma filteredQuestions_responses [simp]:
  "filteredQuestions d (fd\<lparr>responses := rs\<rparr>) = filteredQuestions d fd"
  by (simp add: filteredQuestions_def currentChecklist_def)

lemma categoriesWithQuestions_responses [simp]:
  "categoriesWithQuestions d (fd\<lparr>responses := rs\<rparr>) = categoriesWithQuestions d fd"
  by (simp add: categoriesWithQuestions_def)

lemma ex_step3_context:
  "3 \<le> currentStep (ex_step3 rs)"
  "nth_opt (categoriesWithQuestions ex_data (formData (ex_step3 rs))) (currentStep (ex_step3 rs) - 3)
     = Some \<lparr> cat_id = 1, cat_name = ''Safety'' \<rparr>"
  "filteredQuestions ex_data (formData (ex_step3 rs)) = take 2 ex_questions"
  "responses (formData (ex_step3 rs)) = rs"
  by (simp_all add: ex_step3_def ex_categoriesWithQuestions ex_filteredQuestions nth_opt_def)

lemma ex_step3_missingFields:
  "missingFields ex_data (ex_step3 rs) = fold (checkQuestion rs) (take 2 ex_questions) []"
  using question_step_missingFields [OF ex_step3_context(1,2), of rs]
  by (simp add: ex_step3_context) (simp add: ex_questions_def)

lemma ex_q_mem:
  "ex_q10 \<in> set (filteredQuestions ex_data (formData (ex_step3 rs)))"
  "ex_q11 \<in> set (filteredQuestions ex_data (formData (ex_step3 rs)))"
  by (simp_all add: ex_step3_context) (simp_all add: ex_questions_def ex_q10_def ex_q11_def)

section \<open>The two validators\<close>

text \<open>
  Claim C1 says that \<open>canProceed\<close> returns true exactly when \<open>validateCurrentStep\<close>
  finds nothing missing. The code does not do that. On the identification step
  \<open>canProceed\<close> tests the raw operator name where \<open>validateCurrentStep\<close> tests the
  trimmed one: with the name \<open>"  "\<close> the first accepts and the second refuses. On a
  question step \<open>canProceed\<close> walks the unfiltered questions of the category where
  \<open>validateCurrentStep\<close> walks the filtered ones: with work task 1 selected, the
  required question 13 (linked to work task 2 only, so never shown) makes
  \<open>canProceed\<close> refuse a step that \<open>validateCurrentStep\<close> accepts.
\<close>

theorem canProceed_validateCurrentStep_disagree:
  "canProceed ex_data ex_spaces \<and>
   \<not> fst (validateCurrentStep ex_data ex_spaces) \<and>
   missingFields ex_data ex_spaces = [label_operatorName] \<and>
   \<not> canProceed ex_data (ex_state 3) \<and>
   fst (validateCurrentStep ex_data (ex_state 3)) \<and>
   missingFields ex_data (ex_state 3) = []"
proof -
  have c: "currentChecklist ex_data (formData ex_spaces) = Some ex_checklist"
    by (simp add: currentChecklist_def ex_spaces_def ex_data_def ex_form_def ex_checklist_def)
  have p2: "canProceed ex_data ex_spaces"
    by (simp add: canProceed_def c ex_workTasks Let_def)
       (simp add: ex_spaces_def ex_form_def ex_checklist_def ex_data_def truthy_def)
  have m2: "missingFields ex_data ex_spaces = [label_operatorName]"
    by (simp add: missingFields_def c ex_workTasks Let_def)
       (simp add: ex_spaces_def ex_form_def ex_checklist_def ex_data_def truthy_def trim_def
          isWhiteSpace_def)
  have n: "nth_opt (categoriesWithQuestions ex_data (formData (ex_state 3)))
             (currentStep (ex_state 3) - 3) = Some \<lparr> cat_id = 1, cat_name = ''Safety'' \<rparr>"
    by (simp add: ex_state_def ex_categoriesWithQuestions nth_opt_def)
  have p3: "\<not> canProceed ex_data (ex_state 3)"
    by (simp add: canProceed_def n Let_def)
       (simp add: ex_state_def ex_data_def ex_questions_def ex_form_def lookupResponse_def)
  have e: "ex_state 3 = ex_step3 (responses ex_form)"
    by (simp add: ex_state_def ex_step3_def)
  have m3: "missingFields ex_data (ex_state 3) = []"
    unfolding e ex_step3_missingFields
    by (simp add: ex_questions_def ex_form_def checkQuestion_def lookupResponse_def)
  from p2 m2 p3 m3 show ?thesis by (simp add: validateCurrentStep_ok)
qed

section \<open>Question filter\<close>

text \<open>
  Claim C2. When the checklist does not use work tasks or no work task is selected,
  \<open>filteredQuestions\<close> is the list \<open>questions\<close> itself. Otherwise it is
  \<open>questions\<close> filtered, in order, by: the question has no entry in the link table,
  or one of its entries carries the selected work task. A work task is selected when
  \<open>formData.workTaskId\<close> is truthy, which is how the source tests it: \<open>null\<close> is
  not, and neither is the number 0, which no stored work task has as its id.
\<close>

theorem filteredQuestions_spec:
  "(\<not> optFlag includeWorkTasks (currentChecklist d fd) \<or> \<not> truthy (workTaskId fd) \<longrightarrow>
      filteredQuestions d fd = questions d) \<and>
   (optFlag includeWorkTasks (currentChecklist d fd) \<and> truthy (workTaskId fd) \<longrightarrow>
      filteredQuestions d fd =
        filter (\<lambda>q. (\<forall>l \<in> set (allQuestionWorkTasks d). questionId l \<noteq> q_id q) \<or>
                     (\<exists>l \<in> set (allQuestionWorkTasks d).
                        questionId l = q_id q \<and> Some (qwt_workTaskId l) = workTaskId fd))
          (questions d))"
proof -
  have eq: "(let ls = filter (\<lambda>qwt. questionId qwt = q_id q) (allQuestionWorkTasks d)
             in if length ls = 0 then True
                else list_ex (\<lambda>qwt. Some (qwt_workTaskId qwt) = workTaskId fd) ls) =
            ((\<forall>l \<in> set (allQuestionWorkTasks d). questionId l \<noteq> q_id q) \<or>
             (\<exists>l \<in> set (allQuestionWorkTasks d).
                questionId l = q_id q \<and> Some (qwt_workTaskId l) = workTaskId fd))" for q
    by (auto simp: Let_def list_ex_iff filter_empty_conv)
  show ?thesis
    unfolding filteredQuestions_def by (simp only: eq) auto
qed

text \<open>
  On the sample with work task 1 selected, the questions 12 and 13 (linked to work
  task 2) are dropped; with no work task selected all four questions stay.
\<close>

theorem filteredQuestions_spec_witness:
  "optFlag includeWorkTasks (currentChecklist ex_data ex_form) \<and> truthy (workTaskId ex_form) \<and>
   filteredQuestions ex_data ex_form = take 2 ex_questions \<and>
   \<not> truthy (workTaskId (ex_form\<lparr>workTaskId := None\<rparr>)) \<and>
   filteredQuestions ex_data (ex_form\<lparr>workTaskId := None\<rparr>) = ex_questions"
proof -
  have h1: "optFlag includeWorkTasks (currentChecklist ex_data ex_form)"
    by (simp add: ex_currentChecklist) (simp add: ex_checklist_def)
  have h2: "truthy (workTaskId ex_form)"
    by (simp add: ex_form_def truthy_def)
  have h3: "\<not> truthy (workTaskId (ex_form\<lparr>workTaskId := None\<rparr>))"
    by (simp add: truthy_def)
  have a: "filteredQuestions ex_data ex_form =
        filter (\<lambda>q. (\<forall>l \<in> set (allQuestionWorkTasks ex_data). questionId l \<noteq> q_id q) \<or>
                     (\<exists>l \<in> set (allQuestionWorkTasks ex_data).
                        questionId l = q_id q \<and> Some (qwt_workTaskId l) = workTaskId ex_form))
          (questions ex_data)"
    using filteredQuestions_spec [of ex_data ex_form] h1 h2 by blast
  have b: "filteredQuestions ex_data (ex_form\<lparr>workTaskId := None\<rparr>) = questions ex_data"
    using filteredQuestions_spec [of ex_data "ex_form\<lparr>workTaskId := None\<rparr>"] h3 by blast
  have a': "filteredQuestions ex_data ex_form = take 2 ex_questions"
    unfolding a by (simp add: ex_data_def ex_questions_def ex_form_def)
  have b': "filteredQuestions ex_data (ex_form\<lparr>workTaskId := None\<rparr>) = ex_questions"
    unfolding b by (simp add: ex_data_def)
  from h1 h2 h3 a' b' show ?thesis by simp
qed

section \<open>Step planner\<close>

text \<open>
  Claim C3. The category steps are the categories that have at least one filtered
  question with their id as \<open>categoryId\<close>, in the order of the list \<open>categories\<close>:
  a sublist of it, which holds a category exactly when the category is supplied and
  has such a question. \<open>totalSteps\<close> is 1 plus the number of these categories.
\<close>

theorem categoriesWithQuestions_spec:
  "categoriesWithQuestions d fd =
     filter (\<lambda>c. \<exists>q \<in> set (filteredQuestions d fd). categoryId q = cat_id c) (categories d) \<and>
   subseq (categoriesWithQuestions d fd) (categories d) \<and>
   (c \<in> set (categoriesWithQuestions d fd) \<longleftrightarrow>
      c \<in> set (categories d) \<and> (\<exists>q \<in> set (filteredQuestions d fd). categoryId q = cat_id c)) \<and>
   totalSteps d fd =
     1 + int (length (filter (\<lambda>c. \<exists>q \<in> set (filteredQuestions d fd). categoryId q = cat_id c)
                        (categories d)))"
  by (simp add: categoriesWithQuestions_def totalSteps_def list_ex_iff)

text \<open>
  On the sample with work task 1 selected, the only question of the category Quality
  is filtered out and the category Spare has none: one category step, two steps.
\<close>

theorem categoriesWithQuestions_spec_witness:
  "categoriesWithQuestions ex_data ex_form = [\<lparr> cat_id = 1, cat_name = ''Safety'' \<rparr>] \<and>
   \<lparr> cat_id = 2, cat_name = ''Quality'' \<rparr> \<notin> set (categoriesWithQuestions ex_data ex_form) \<and>
   totalSteps ex_data ex_form = 2"
  using categoriesWithQuestions_spec [of ex_data ex_form "\<lparr> cat_id = 2, cat_name = ''Quality'' \<rparr>"]
  by (simp add: ex_filteredQuestions) (simp add: ex_data_def ex_questions_def)

section \<open>Required questions on a question step\<close>

text \<open>
  Claim C4. Let the current step be a question step that resolves to a category, and
  let a required question of type \<open>check\<close> be among its filtered questions. The
  loop of \<open>validateCurrentStep\<close> adds the label of the question to the missing
  fields unless the stored response is exactly \<open>true\<close>. So with any other response
  (\<open>false\<close>, \<open>undefined\<close>, no entry at all) the label is reported and validation
  fails; with \<open>true\<close> the question adds nothing: the missing fields are those of
  the other questions of the step.
\<close>

theorem checkbox_strictness:
  assumes "3 \<le> currentStep s"
    and "nth_opt (categoriesWithQuestions d (formData s)) (currentStep s - 3) = Some c"
    and "q \<in> set (filteredQuestions d (formData s))"
    and "categoryId q = cat_id c"
    and "isRequired q"
    and "q_type q = ''check''"
  shows "checkQuestion (responses (formData s)) q acc =
           (if responses (formData s) (q_id q) = Some (JBool True) then acc
            else acc @ [questionLabel q]) \<and>
         (responses (formData s) (q_id q) \<noteq> Some (JBool True) \<longrightarrow>
            questionLabel q \<in> set (missingFields d s) \<and> \<not> fst (validateCurrentStep d s)) \<and>
         (responses (formData s) (q_id q) = Some (JBool True) \<longrightarrow>
            missingFields d s =
              fold (checkQuestion (responses (formData s)))
                (removeAll q (filter (\<lambda>q'. categoryId q' = cat_id c)
                                (filteredQuestions d (formData s)))) [])"
proof -
  let ?rs = "responses (formData s)"
  let ?qs = "filter (\<lambda>q'. categoryId q' = cat_id c) (filteredQuestions d (formData s))"
  have body: "checkQuestion ?rs q acc =
      (if ?rs (q_id q) = Some (JBool True) then acc else acc @ [questionLabel q])" for acc
    using assms(5,6)
    by (auto simp: checkQuestion_def lookupResponse_def Let_def split: option.splits)
  have m: "missingFields d s = fold (checkQuestion ?rs) ?qs []"
    using assms(1,2) by (rule question_step_missingFields)
  have mem: "q \<in> set ?qs" using assms(3,4) by simp
  have neg: "questionLabel q \<in> set (missingFields d s) \<and> \<not> fst (validateCurrentStep d s)"
    if "?rs (q_id q) \<noteq> Some (JBool True)"
  proof -
    have "checkQuestion ?rs q [] = [questionLabel q]" using that body [of "[]"] by simp
    with fold_checkQuestion_mem [OF mem, of ?rs] m
    have "questionLabel q \<in> set (missingFields d s)" by simp
    then show ?thesis by (auto simp: validateCurrentStep_ok)
  qed
  have pos: "missingFields d s = fold (checkQuestion ?rs) (removeAll q ?qs) []"
    if "?rs (q_id q) = Some (JBool True)"
  proof -
    have "checkQuestion ?rs q [] = []" using that body [of "[]"] by simp
    then show ?thesis using m by (simp only: fold_checkQuestion_removeAll)
  qed
  from body [of acc] neg pos show ?thesis by blast
qed

text \<open>
  On the sample, question 10 is a required checkbox on step 3: it is reported for the
  responses \<open>false\<close> and \<open>undefined\<close> and for no response, and not for \<open>true\<close>.
\<close>

theorem checkbox_strictness_witness:
  "questionLabel ex_q10 \<in> set (missingFields ex_data (ex_step3 [10 \<mapsto> JBool False, 11 \<mapsto> JNum 0])) \<and>
   \<not> fst (validateCurrentStep ex_data (ex_step3 [10 \<mapsto> JBool False, 11 \<mapsto> JNum 0])) \<and>
   questionLabel ex_q10 \<in> set (missingFields ex_data (ex_step3 [10 \<mapsto> JUndefined, 11 \<mapsto> JNum 0])) \<and>
   questionLabel ex_q10 \<in> set (missingFields ex_data (ex_step3 [11 \<mapsto> JNum 0])) \<and>
   missingFields ex_data (ex_step3 [10 \<mapsto> JBool True, 11 \<mapsto> JNum 0]) = []"
proof -
  have q: "categoryId ex_q10 = cat_id \<lparr> cat_id = 1, cat_name = ''Safety'' \<rparr>"
    "isRequired ex_q10" "q_type ex_q10 = ''check''" "q_id ex_q10 = 10"
    by (simp_all add: ex_q10_def)
  note t = checkbox_strictness [OF ex_step3_context(1,2) ex_q_mem(1) q(1,2,3), of _ "[]"]
  have a: "questionLabel ex_q10 \<in> set (missingFields ex_data (ex_step3 [10 \<mapsto> JBool False, 11 \<mapsto> JNum 0])) \<and>
           \<not> fst (validateCurrentStep ex_data (ex_step3 [10 \<mapsto> JBool False, 11 \<mapsto> JNum 0]))"
    using t [of "[10 \<mapsto> JBool False, 11 \<mapsto> JNum 0]"] by (simp add: ex_step3_context q)
  have b: "questionLabel ex_q10 \<in> set (missingFields ex_data (ex_step3 [10 \<mapsto> JUndefined, 11 \<mapsto> JNum 0]))"
    using t [of "[10 \<mapsto> JUndefined, 11 \<mapsto> JNum 0]"] by (simp add: ex_step3_context q)
  have c: "questionLabel ex_q10 \<in> set (missingFields ex_data (ex_step3 [11 \<mapsto> JNum 0]))"
    using t [of "[11 \<mapsto> JNum 0]"] by (simp add: ex_step3_context q)
  have d: "missingFields ex_data (ex_step3 [10 \<mapsto> JBool True, 11 \<mapsto> JNum 0]) = []"
    using t [of "[10 \<mapsto> JBool True, 11 \<mapsto> JNum 0]"]
    by (simp add: ex_step3_context q)
       (simp add: ex_questions_def ex_q10_def checkQuestion_def lookupResponse_def)
  from a b c d show ?thesis by simp
qed

text \<open>
  Claim C5. In the same setting, for a required question of any other type, the loop
  adds the label exactly when the response is absent, \<open>undefined\<close>, \<open>null\<close> or
  the empty string; then validation fails. With any other response, such as
  \<open>false\<close> or the number 0, the question adds nothing.
\<close>

theorem non_checkbox_emptiness:
  assumes "3 \<le> currentStep s"
    and "nth_opt (categoriesWithQuestions d (formData s)) (currentStep s - 3) = Some c"
    and "q \<in> set (filteredQuestions d (formData s))"
    and "categoryId q = cat_id c"
    and "isRequired q"
    and "q_type q \<noteq> ''check''"
  shows "checkQuestion (responses (formData s)) q acc =
           (if responses (formData s) (q_id q) \<in> {None, Some JUndefined, Some JNull, Some (JStr [])}
            then acc @ [questionLabel q] else acc) \<and>
         (responses (formData s) (q_id q) \<in> {None, Some JUndefined, Some JNull, Some (JStr [])} \<longrightarrow>
            questionLabel q \<in> set (missingFields d s) \<and> \<not> fst (validateCurrentStep d s)) \<and>
         (responses (formData s) (q_id q) \<notin> {None, Some JUndefined, Some JNull, Some (JStr [])} \<longrightarrow>
            missingFields d s =
              fold (checkQuestion (responses (formData s)))
                (removeAll q (filter (\<lambda>q'. categoryId q' = cat_id c)
                                (filteredQuestions d (formData s)))) [])"
proof -
  let ?rs = "responses (formData s)"
  let ?qs = "filter (\<lambda>q'. categoryId q' = cat_id c) (filteredQuestions d (formData s))"
  let ?E = "{None, Some JUndefined, Some JNull, Some (JStr [])}"
  have body: "checkQuestion ?rs q acc =
      (if ?rs (q_id q) \<in> ?E then acc @ [questionLabel q] else acc)" for acc
    using assms(5,6)
    by (auto simp: checkQuestion_def lookupResponse_def Let_def split: option.splits)
  have m: "missingFields d s = fold (checkQuestion ?rs) ?qs []"
    using assms(1,2) by (rule question_step_missingFields)
  have mem: "q \<in> set ?qs" using assms(3,4) by simp
  have neg: "questionLabel q \<in> set (missingFields d s) \<and> \<not> fst (validateCurrentStep d s)"
    if "?rs (q_id q) \<in> ?E"
  proof -
    have "checkQuestion ?rs q [] = [questionLabel q]" using that body [of "[]"] by simp
    with fold_checkQuestion_mem [OF mem, of ?rs] m
    have "questionLabel q \<in> set (missingFields d s)" by simp
    then show ?thesis by (auto simp: validateCurrentStep_ok)
  qed
  have pos: "missingFields d s = fold (checkQuestion ?rs) (removeAll q ?qs) []"
    if "?rs (q_id q) \<notin> ?E"
  proof -
    have "checkQuestion ?rs q [] = []" using that body [of "[]"] by simp
    then show ?thesis using m by (simp only: fold_checkQuestion_removeAll)
  qed
  from body [of acc] neg pos show ?thesis by blast
qed

text \<open>
  On the sample, question 11 is a required number question on step 3: the responses
  0 and \<open>false\<close> satisfy it; the empty string, \<open>null\<close> and no response do not.
\<close>

theorem non_checkbox_emptiness_witness:
  "missingFields ex_data (ex_step3 [10 \<mapsto> JBool True, 11 \<mapsto> JNum 0]) = [] \<and>
   missingFields ex_data (ex_step3 [10 \<mapsto> JBool True, 11 \<mapsto> JBool False]) = [] \<and>
   questionLabel ex_q11 \<in> set (missingFields ex_data (ex_step3 [10 \<mapsto> JBool True, 11 \<mapsto> JStr []])) \<and>
   \<not> fst (validateCurrentStep ex_data (ex_step3 [10 \<mapsto> JBool True, 11 \<mapsto> JStr []])) \<and>
   questionLabel ex_q11 \<in> set (missingFields ex_data (ex_step3 [10 \<mapsto> JBool True, 11 \<mapsto> JNull])) \<and>
   questionLabel ex_q11 \<in> set (missingFields ex_data (ex_step3 [10 \<mapsto> JBool True]))"
proof -
  have q: "categoryId ex_q11 = cat_id \<lparr> cat_id = 1, cat_name = ''Safety'' \<rparr>"
    "isRequired ex_q11" "q_type ex_q11 \<noteq> ''check''" "q_id ex_q11 = 11"
    by (simp_all add: ex_q11_def)
  note t = non_checkbox_emptiness [OF ex_step3_context(1,2) ex_q_mem(2) q(1,2,3), of _ "[]"]
  have a: "missingFields ex_data (ex_step3 [10 \<mapsto> JBool True, 11 \<mapsto> JNum 0]) = []"
    using t [of "[10 \<mapsto> JBool True, 11 \<mapsto> JNum 0]"]
    by (simp add: ex_step3_context q)
       (simp add: ex_questions_def ex_q11_def checkQuestion_def lookupResponse_def)
  have b: "missingFields ex_data (ex_step3 [10 \<mapsto> JBool True, 11 \<mapsto> JBool False]) = []"
    using t [of "[10 \<mapsto> JBool True, 11 \<mapsto> JBool False]"]
    by (simp add: ex_step3_context q)
       (simp add: ex_questions_def ex_q11_def checkQuestion_def lookupResponse_def)
  have c: "questionLabel ex_q11 \<in> set (missingFields ex_data (ex_step3 [10 \<mapsto> JBool True, 11 \<mapsto> JStr []])) \<and>
           \<not> fst (validateCurrentStep ex_data (ex_step3 [10 \<mapsto> JBool True, 11 \<mapsto> JStr []]))"
    using t [of "[10 \<mapsto> JBool True, 11 \<mapsto> JStr []]"] by (simp add: ex_step3_context q)
  have d: "questionLabel ex_q11 \<in> set (missingFields ex_data (ex_step3 [10 \<mapsto> JBool True, 11 \<mapsto> JNull]))"
    using t [of "[10 \<mapsto> JBool True, 11 \<mapsto> JNull]"] by (simp add: ex_step3_context q)
  have e: "questionLabel ex_q11 \<in> set (missingFields ex_data (ex_step3 [10 \<mapsto> JBool True]))"
    using t [of "[10 \<mapsto> JBool True]"] by (simp add: ex_step3_context q)
  from a b c d e show ?thesis by simp
qed

section \<open>Identification step\<close>

text \<open>
  Claim C6. On the identification step (step 2) with a current checklist, the missing
  fields are, in this order and each on its own condition: the operator-name label
  when the operator name is empty after trimming; the work-task label when the
  checklist has \<open>includeWorkTasks\<close> and no work task is selected; the work-station
  label when the checklist has \<open>includeWorkStations\<close>, a work task is selected, that
  task is found among the work tasks with \<open>hasStations\<close> true, and no station is
  selected; the shift label when the checklist has \<open>includeShifts\<close> and no shift is
  selected. Validation passes exactly when this list is empty. An id is selected when
  it is truthy, as the source tests it.
\<close>

theorem identification_step_missingFields:
  assumes "currentStep s = 2"
    and "currentChecklist d (formData s) = Some c"
  shows "missingFields d s =
           (if trim (operatorName (formData s)) = [] then [label_operatorName] else []) @
           (if includeWorkTasks c \<and> \<not> truthy (workTaskId (formData s))
            then [label_workTask] else []) @
           (if includeWorkStations c \<and> truthy (workTaskId (formData s)) \<and>
               (\<exists>t. find (\<lambda>task. Some (wt_id task) = workTaskId (formData s)) (workTasks d) = Some t \<and>
                    hasStations t) \<and>
               \<not> truthy (workStationId (formData s))
            then [label_workStation] else []) @
           (if includeShifts c \<and> \<not> truthy (shiftId (formData s)) then [label_shift] else []) \<and>
         fst (validateCurrentStep d s) = (missingFields d s = [])"
proof -
  have st: "optFlag hasStations x = (\<exists>t. x = Some t \<and> hasStations t)" for x :: "WorkTask option"
    by (cases x) simp_all
  have "missingFields d s =
           (if trim (operatorName (formData s)) = [] then [label_operatorName] else []) @
           (if includeWorkTasks c \<and> \<not> truthy (workTaskId (formData s))
            then [label_workTask] else []) @
           (if includeWorkStations c \<and> truthy (workTaskId (formData s)) \<and>
               (\<exists>t. find (\<lambda>task. Some (wt_id task) = workTaskId (formData s)) (workTasks d) = Some t \<and>
                    hasStations t) \<and>
               \<not> truthy (workStationId (formData s))
            then [label_workStation] else []) @
           (if includeShifts c \<and> \<not> truthy (shiftId (formData s)) then [label_shift] else [])"
    using assms by (simp add: missingFields_def Let_def st)
  then show ?thesis by (simp only: validateCurrentStep_ok simp_thms)
qed

text \<open>
  On the sample with the operator name \<open>"  "\<close> and no station, for work task 1
  (which has stations): the operator name and the work station are reported.
\<close>

theorem identification_step_missingFields_witness:
  "currentStep ex_blank = 2 \<and>
   currentChecklist ex_data (formData ex_blank) = Some ex_checklist \<and>
   missingFields ex_data ex_blank = [label_operatorName, label_workStation] \<and>
   \<not> fst (validateCurrentStep ex_data ex_blank)"
proof -
  have h1: "currentStep ex_blank = 2" by (simp add: ex_blank_def)
  have h2: "currentChecklist ex_data (formData ex_blank) = Some ex_checklist"
    by (simp add: currentChecklist_def ex_blank_def ex_data_def ex_form_def ex_checklist_def)
  have m: "missingFields ex_data ex_blank = [label_operatorName, label_workStation]"
    using identification_step_missingFields [OF h1 h2]
    by (simp add: ex_workTasks)
       (simp add: ex_blank_def ex_form_def ex_checklist_def ex_data_def truthy_def trim_def
          isWhiteSpace_def)
  have v: "\<not> fst (validateCurrentStep ex_data ex_blank)"
    using identification_step_missingFields [OF h1 h2] m by simp
  from h1 h2 m v show ?thesis by simp
qed

section \<open>Submission payload\<close>

text \<open>
  Claim C7. For every checklist configuration and form session, the payload built by
  \<open>handleSubmit\<close> carries \<open>checklistId\<close>, \<open>operatorName\<close>, the responses as they
  are, and \<open>isCompleted = true\<close>. The key \<open>workTaskId\<close> is present exactly when the
  checklist has \<open>includeWorkTasks\<close>, \<open>workStationId\<close> exactly when it has
  \<open>includeWorkStations\<close>, and \<open>shiftId\<close> exactly when it has \<open>includeShifts\<close>;
  each key depends on its own flag only, and a present key holds the session's value.
  This payload is what \<open>handleSubmit\<close> posts.
\<close>

theorem submitData_shape:
  assumes "currentChecklist d fd = Some c"
  shows "sd_checklistId (submitData d fd) = checklistId fd \<and>
         sd_operatorName (submitData d fd) = operatorName fd \<and>
         sd_responses (submitData d fd) = responses fd \<and>
         isCompleted (submitData d fd) = True \<and>
         sd_workTaskId (submitData d fd) =
           (if includeWorkTasks c then Some (workTaskId fd) else None) \<and>
         sd_workStationId (submitData d fd) =
           (if includeWorkStations c then Some (workStationId fd) else None) \<and>
         sd_shiftId (submitData d fd) =
           (if includeShifts c then Some (shiftId fd) else None) \<and>
         effects (handleSubmit d \<lparr> currentStep = n, formData = fd, effects = es \<rparr>) =
           es @ [ApiRequest ''POST'' ''/api/responses'' (submitData d fd)]"
  using assms by (simp add: submitData_def handleSubmit_def Let_def)

text \<open>
  On the sample (work tasks and stations included, shifts not) the payload has the
  work task and the station and no shift.
\<close>

theorem submitData_shape_witness:
  "currentChecklist ex_data ex_form = Some ex_checklist \<and>
   submitData ex_data ex_form =
     \<lparr> sd_checklistId = Some 1, sd_operatorName = ''Ann'',
       sd_responses = responses ex_form, isCompleted = True,
       sd_workTaskId = Some (Some 1), sd_workStationId = Some (Some 5),
       sd_shiftId = None \<rparr>"
  using submitData_shape [OF ex_currentChecklist, of 2 "[]"]
  by (simp add: ex_currentChecklist) (simp add: ex_form_def ex_checklist_def)

section \<open>Outcome of a submission\<close>

text \<open>
  Claim C8. When the submission fails, the step and the form data (operator name,
  work task, station, shift, responses) stay as they were and only the failure toast
  is added, also right after \<open>handleSubmit\<close>, so the user can retry. When it
  succeeds, the step and the form data are those of the initial state, and the last
  thing the component does is to call \<open>onClose\<close>.
\<close>

theorem submission_outcome_state:
  "currentStep (submitMutation d Rejected s) = currentStep s \<and>
   formData (submitMutation d Rejected s) = formData s \<and>
   butlast (effects (submitMutation d Rejected s)) = effects s \<and>
   currentStep (submitMutation d Rejected (handleSubmit d s)) = currentStep s \<and>
   formData (submitMutation d Rejected (handleSubmit d s)) = formData s \<and>
   currentStep (submitMutation d Resolved s) = currentStep (initialState d) \<and>
   formData (submitMutation d Resolved s) = formData (initialState d) \<and>
   last (effects (submitMutation d Resolved s)) = OnClose"
  by (simp add: submitMutation_def onError_def onSuccess_def resetForm_def initialState_def
      handleSubmit_def Let_def)

section \<open>A checklist without question steps\<close>

text \<open>
  Claim C9. When no category has questions, \<open>totalSteps\<close> is 1, no step index
  resolves to a category, and \<open>handleNext\<close> on the identification step (step 2),
  once validation passes, does what \<open>handleSubmit\<close> does: the step stays 2 and the
  payload is posted.
\<close>

theorem single_step_next_submits:
  assumes "categoriesWithQuestions d (formData s) = []"
    and "currentStep s = 2"
    and "fst (validateCurrentStep d s)"
  shows "totalSteps d (formData s) = 1 \<and>
         nth_opt (categoriesWithQuestions d (formData s)) k = None \<and>
         handleNext d s = handleSubmit d s \<and>
         currentStep (handleNext d s) = 2 \<and>
         effects (handleNext d s) =
           effects s @ [ApiRequest ''POST'' ''/api/responses'' (submitData d (formData s))]"
proof -
  have t: "totalSteps d (formData s) = 1"
    using assms(1) by (simp add: totalSteps_def)
  have v: "validateCurrentStep d s = (True, s)"
    using assms(3) by (auto simp: validateCurrentStep_def Let_def split: if_splits)
  have h: "handleNext d s = handleSubmit d s"
    using t v assms(2) by (simp add: handleNext_def)
  show ?thesis
    using t h assms(1,2) by (simp add: handleSubmit_def nth_opt_def)
qed

text \<open>The sample without categories: the filled identification step submits.\<close>

theorem single_step_next_submits_witness:
  "categoriesWithQuestions ex_data0 (formData (ex_state 2)) = [] \<and>
   currentStep (ex_state 2) = 2 \<and>
   fst (validateCurrentStep ex_data0 (ex_state 2)) \<and>
   totalSteps ex_data0 (formData (ex_state 2)) = 1 \<and>
   handleNext ex_data0 (ex_state 2) = handleSubmit ex_data0 (ex_state 2)"
proof -
  have h1: "categoriesWithQuestions ex_data0 (formData (ex_state 2)) = []"
    by (simp add: categoriesWithQuestions_def ex_data0_def)
  have h2: "currentStep (ex_state 2) = 2" by (simp add: ex_state_def)
  have c: "currentChecklist ex_data0 ex_form = Some ex_checklist"
    by (simp add: currentChecklist_def ex_data0_def ex_data_def ex_form_def ex_checklist_def)
  have w: "workTasks ex_data0 = allWorkTasks ex_data"
    by (simp add: workTasks_def ex_data0_def ex_data_def)
  have m: "missingFields ex_data0 (ex_state 2) = []"
    by (simp add: missingFields_def ex_state_def c w Let_def)
       (simp add: ex_form_def ex_checklist_def ex_data_def truthy_def trim_def isWhiteSpace_def)
  have h3: "fst (validateCurrentStep ex_data0 (ex_state 2))"
    by (simp add: validateCurrentStep_def m)
  from single_step_next_submits [OF h1 h2 h3, of 0] h1 h2 h3 show ?thesis by simp
qed

section \<open>Step indices beyond the planned categories\<close>

text \<open>
  Claim C10. For a step index of at least 3 whose offset (index minus 3) is not a
  position of the list of categories with questions, \<open>validateCurrentStep\<close> finds
  nothing missing, returns true and shows no toast, and \<open>canProceed\<close> returns true:
  the missing category makes the step valid, it is not rejected.
\<close>

theorem out_of_range_step_is_valid:
  assumes "3 \<le> currentStep s"
    and "int (length (categoriesWithQuestions d (formData s))) \<le> currentStep s - 3"
  shows "missingFields d s = [] \<and> validateCurrentStep d s = (True, s) \<and> canProceed d s"
proof -
  have n: "nth_opt (categoriesWithQuestions d (formData s)) (currentStep s - 3) = None"
    using assms(2) by (rule nth_opt_None)
  have m: "missingFields d s = []"
    using assms(1) n by (simp add: missingFields_def Let_def)
  have v: "validateCurrentStep d s = (True, s)"
    using m by (simp add: validateCurrentStep_def)
  have c: "canProceed d s"
    using assms(1) n by (simp add: canProceed_def Let_def)
  from m v c show ?thesis by simp
qed

text \<open>The sample has one category with questions; step 7 is far beyond it.\<close>

theorem out_of_range_step_is_valid_witness:
  "3 \<le> currentStep (ex_state 7) \<and>
   int (length (categoriesWithQuestions ex_data (formData (ex_state 7))))
     \<le> currentStep (ex_state 7) - 3 \<and>
   missingFields ex_data (ex_state 7) = [] \<and>
   validateCurrentStep ex_data (ex_state 7) = (True, ex_state 7) \<and>
   canProceed ex_data (ex_state 7)"
proof -
  have h1: "3 \<le> currentStep (ex_state 7)" by (simp add: ex_state_def)
  have h2: "int (length (categoriesWithQuestions ex_data (formData (ex_state 7))))
              \<le> currentStep (ex_state 7) - 3"
    by (simp add: ex_state_def ex_categoriesWithQuestions)
  from out_of_range_step_is_valid [OF h1 h2] h1 h2 show ?thesis by simp
qed

end
